theory Spec2Isabelle
  imports Complex_Main
begin

section \<open>The estimate worker: values\<close>

text \<open>
  The worker of \<^verbatim>\<open>src/index.js\<close> prices an estimate request, validates it and stores one
  record for it. This theory embeds \<^verbatim>\<open>calculatePricing\<close>, \<^verbatim>\<open>isValidEmail\<close>,
  \<^verbatim>\<open>isValidUrl\<close>, \<^verbatim>\<open>validateEstimateForm\<close>, \<^verbatim>\<open>handleSubmitRequest\<close> and the
  \<^verbatim>\<open>fetch\<close> entry point.

  A JavaScript string is a sequence of UTF-16 code units, here a list of naturals. The
  literals of the program are written as Isabelle strings and converted by \<open>js\<close>.
\<close>

type_synonym jsstring = "nat list"

definition js :: "string \<Rightarrow> jsstring" where
  "js s = map of_char s"

text \<open>
  A parsed JSON body. \<open>JUndefined\<close> is what reading an absent property yields; the parser
  itself never produces it. A number carries its value; the program reads of a number of
  the payload only whether it is zero. An object keeps its members in the order of the
  text.
\<close>

datatype json =
    JUndefined
  | JNull
  | JBool bool
  | JNum rat
  | JStr jsstring
  | JArr "json list"
  | JObj "(jsstring \<times> json) list"

text \<open>Truthiness, \<^verbatim>\<open>Array.isArray\<close> and \<^verbatim>\<open>typeof v === 'string'\<close>.\<close>

fun truthy :: "json \<Rightarrow> bool" where
  "truthy JUndefined = False"
| "truthy JNull = False"
| "truthy (JBool b) = b"
| "truthy (JNum n) = (n \<noteq> 0)"
| "truthy (JStr s) = (s \<noteq> [])"
| "truthy (JArr xs) = True"
| "truthy (JObj kvs) = True"

fun isArray :: "json \<Rightarrow> bool" where
  "isArray (JArr xs) = True"
| "isArray v = False"

fun isString :: "json \<Rightarrow> bool" where
  "isString (JStr s) = True"
| "isString v = False"

text \<open>
  Reading the property \<open>k\<close> of a value that is neither \<^verbatim>\<open>null\<close> nor \<^verbatim>\<open>undefined\<close>.
  An object of a JSON text holds its members as own properties, and a repeated name keeps
  its last value. The names the worker reads (\<^verbatim>\<open>appUrl\<close>, \<^verbatim>\<open>email\<close>, ...) are
  members of no prototype, so on every other value the read yields \<^verbatim>\<open>undefined\<close>.
\<close>

fun get :: "json \<Rightarrow> string \<Rightarrow> json" where
  "get (JObj kvs) k = (case map_of (rev kvs) (js k) of Some v \<Rightarrow> v | None \<Rightarrow> JUndefined)"
| "get v k = JUndefined"

text \<open>The exceptions that reach the handler's \<^verbatim>\<open>catch\<close>.\<close>

datatype exn =
    SyntaxError
  | TypeError
  | ClientError "nat option" string

text \<open>
  A rejection of the store client is \<open>ClientError statusCode message\<close>: the client's
  errors carry a status code, which is absent when the request never got an answer.
\<close>

section \<open>Pricing\<close>

text \<open>The \<^verbatim>\<open>PRICING\<close> configuration.\<close>

definition PRICING_features :: "(string \<times> rat) list" where
  "PRICING_features =
     [(''Authentication'', 100), (''Payments'', 100), (''SaaS Subscriptions'', 100),
      (''File Uploads'', 100), (''Notifications'', 100)]"

definition PRICING_services :: "(string \<times> rat) list" where
  "PRICING_services =
     [(''Security Audit & Fixes'', 150), (''UI/UX Review'', 150),
      (''Deploy to Production'', 100)]"

definition PRICING_customRequestBase :: rat where
  "PRICING_customRequestBase = 250"

definition PRICING_featureDiscountThreshold :: nat where
  "PRICING_featureDiscountThreshold = 3"

definition PRICING_featureDiscountRate :: rat where
  "PRICING_featureDiscountRate = 1 / 10"

text \<open>
  \<^verbatim>\<open>PRICING.features\<close> and \<^verbatim>\<open>PRICING.services\<close> are object literals, so
  \<^verbatim>\<open>PRICING.features[featureName]\<close> finds an own property or, failing that, a member
  of \<^verbatim>\<open>Object.prototype\<close>. These are the names \<^verbatim>\<open>Object.prototype\<close> defines; each
  of them reads as a function, \<^verbatim>\<open>__proto__\<close> as the prototype object itself.
\<close>

definition Object_prototype :: "string list" where
  "Object_prototype =
     [''constructor'', ''hasOwnProperty'', ''isPrototypeOf'', ''propertyIsEnumerable'',
      ''toLocaleString'', ''toString'', ''valueOf'', ''__proto__'',
      ''__defineGetter__'', ''__defineSetter__'', ''__lookupGetter__'',
      ''__lookupSetter__'']"

text \<open>
  The element of the array is converted to a property key: a string is the key itself,
  \<^verbatim>\<open>null\<close> and a boolean give their fixed texts, an array gives the texts of its
  elements joined by commas, with the empty text for \<^verbatim>\<open>null\<close>. An object is
  converted by its \<^verbatim>\<open>toString\<close>: the inherited one gives \<^verbatim>\<open>[object Object]\<close>; an own
  member of that name, which in a JSON text is never a function, hides it, the inherited
  \<^verbatim>\<open>valueOf\<close> (or an own one) yields no primitive either, and the conversion raises a
  \<^verbatim>\<open>TypeError\<close>. The text of a number is a numeral or \<^verbatim>\<open>Infinity\<close>; alone or joined
  with others by commas it is the name of no member of the catalog or of
  \<^verbatim>\<open>Object.prototype\<close>, and \<open>None\<close> stands for such a key.
\<close>

definition hasOwn :: "(jsstring \<times> json) list \<Rightarrow> string \<Rightarrow> bool" where
  "hasOwn kvs k = (case map_of kvs (js k) of None \<Rightarrow> False | Some v \<Rightarrow> True)"

fun propertyKey :: "json \<Rightarrow> exn + jsstring option"
  and joinKeys :: "json list \<Rightarrow> exn + jsstring option"
  and elementKey :: "json \<Rightarrow> exn + jsstring option" where
  "propertyKey JUndefined = Inr (Some (js ''undefined''))"
| "propertyKey JNull = Inr (Some (js ''null''))"
| "propertyKey (JBool b) = Inr (Some (js (if b then ''true'' else ''false'')))"
| "propertyKey (JNum n) = Inr None"
| "propertyKey (JStr s) = Inr (Some s)"
| "propertyKey (JArr xs) = joinKeys xs"
| "propertyKey (JObj kvs) =
     (if hasOwn kvs ''toString'' then Inl TypeError else Inr (Some (js ''[object Object]'')))"
| "joinKeys [] = Inr (Some [])"
| "joinKeys [x] = elementKey x"
| "joinKeys (x # y # ys) =
     (case elementKey x of
        Inl e \<Rightarrow> Inl e
      | Inr a \<Rightarrow>
          (case joinKeys (y # ys) of
             Inl e \<Rightarrow> Inl e
           | Inr b \<Rightarrow>
               (case (a, b) of
                  (Some a', Some b') \<Rightarrow> Inr (Some (a' @ js '','' @ b'))
                | _ \<Rightarrow> Inr None)))"
| "elementKey JUndefined = Inr (Some [])"
| "elementKey JNull = Inr (Some [])"
| "elementKey (JBool b) = propertyKey (JBool b)"
| "elementKey (JNum n) = propertyKey (JNum n)"
| "elementKey (JStr s) = propertyKey (JStr s)"
| "elementKey (JArr xs) = propertyKey (JArr xs)"
| "elementKey (JObj kvs) = propertyKey (JObj kvs)"

text \<open>
  What \<^verbatim>\<open>table[name]\<close> reads: nothing, a price of the table, or an inherited member;
  or the conversion of the name raises.
\<close>

datatype member = Absent | Price rat | Inherited

definition lookup :: "(string \<times> rat) list \<Rightarrow> json \<Rightarrow> exn + member" where
  "lookup table name =
     (case propertyKey name of
        Inl e \<Rightarrow> Inl e
      | Inr None \<Rightarrow> Inr Absent
      | Inr (Some k) \<Rightarrow>
          (case map_of (map (\<lambda>(n, p). (js n, p)) table) k of
             Some p \<Rightarrow> Inr (Price p)
           | None \<Rightarrow> if k \<in> set (map js Object_prototype) then Inr Inherited else Inr Absent))"

text \<open>\<^verbatim>\<open>if (price)\<close>: a number is truthy unless zero, a function or object always.\<close>

fun priceTruthy :: "member \<Rightarrow> bool" where
  "priceTruthy Absent = False"
| "priceTruthy (Price p) = (p \<noteq> 0)"
| "priceTruthy Inherited = True"

text \<open>
  The values the totals take. The sums of the program are integers far below \<open>2^53\<close>
  (a price is 100, 150 or 250 and an array has fewer than \<open>2^32\<close> elements), so the
  double arithmetic is exact on them, and the product of a multiple of 100 with the
  double nearest to 0.10 rounds to the exact tenth; a number is modelled by its value.
  \<open>VText\<close> is a string that is no numeral: what \<^verbatim>\<open>+=\<close> builds once an operand is a
  function or an object, by concatenating the texts of its operands.
\<close>

datatype jsval = VNum rat | VNaN | VText

fun operand :: "member \<Rightarrow> jsval" where
  "operand (Price p) = VNum p"
| "operand Inherited = VText"
| "operand Absent = VNaN"

fun js_add :: "jsval \<Rightarrow> jsval \<Rightarrow> jsval" where
  "js_add (VNum a) (VNum b) = VNum (a + b)"
| "js_add VText b = VText"
| "js_add a VText = VText"
| "js_add a b = VNaN"

fun js_sub :: "jsval \<Rightarrow> jsval \<Rightarrow> jsval" where
  "js_sub (VNum a) (VNum b) = VNum (a - b)"
| "js_sub a b = VNaN"

fun js_mul :: "jsval \<Rightarrow> jsval \<Rightarrow> jsval" where
  "js_mul (VNum a) (VNum b) = VNum (a * b)"
| "js_mul a b = VNaN"

text \<open>\<^verbatim>\<open>Math.round\<close>: the nearest integer, a half rounded up.\<close>

fun Math_round :: "jsval \<Rightarrow> jsval" where
  "Math_round (VNum a) = VNum (of_int \<lfloor>a + 1 / 2\<rfloor>)"
| "Math_round v = VNaN"

record pricing =
  total :: jsval
  discount :: jsval

text \<open>\<^verbatim>\<open>forEach\<close> with a body that may raise: the first exception ends the loop.\<close>

fun forEach :: "('a \<Rightarrow> 's \<Rightarrow> exn + 's) \<Rightarrow> 'a list \<Rightarrow> 's \<Rightarrow> exn + 's" where
  "forEach f [] acc = Inr acc"
| "forEach f (x # xs) acc = (case f x acc of Inl e \<Rightarrow> Inl e | Inr acc' \<Rightarrow> forEach f xs acc')"

text \<open>The body of the first \<^verbatim>\<open>forEach\<close>, on the pair \<open>(featuresTotal, total)\<close>.\<close>

definition addFeature :: "json \<Rightarrow> jsval \<times> jsval \<Rightarrow> exn + jsval \<times> jsval" where
  "addFeature featureName acc =
     (case lookup PRICING_features featureName of
        Inl e \<Rightarrow> Inl e
      | Inr price \<Rightarrow>
          if priceTruthy price
          then Inr (js_add (fst acc) (operand price), js_add (snd acc) (operand price))
          else Inr acc)"

text \<open>The body of the second \<^verbatim>\<open>forEach\<close>, on \<open>total\<close>.\<close>

definition addService :: "json \<Rightarrow> jsval \<Rightarrow> exn + jsval" where
  "addService serviceName acc =
     (case lookup PRICING_services serviceName of
        Inl e \<Rightarrow> Inl e
      | Inr price \<Rightarrow> if priceTruthy price then Inr (js_add acc (operand price)) else Inr acc)"

text \<open>
  \<^verbatim>\<open>selectedFeatures.length >= PRICING.featureDiscountThreshold\<close> is decided here for
  an array. For a truthy value that is no array the first loop has not run and
  \<open>featuresTotal\<close> is still 0: whether the comparison holds or not, \<open>discount\<close> is
  \<^verbatim>\<open>Math.round(0 * 0.10)\<close> or its initial value, 0 both times, and \<open>total\<close> is
  unchanged.
\<close>

definition applyDiscount :: "json \<Rightarrow> jsval \<times> jsval \<Rightarrow> jsval \<times> jsval" where
  "applyDiscount selectedFeatures acc =
     (case selectedFeatures of
        JArr xs \<Rightarrow>
          if PRICING_featureDiscountThreshold \<le> length xs
          then (let d = Math_round (js_mul (fst acc) (VNum PRICING_featureDiscountRate))
                in (js_sub (snd acc) d, d))
          else (snd acc, VNum 0)
      | _ \<Rightarrow> (snd acc, VNum 0))"

definition calculatePricing :: "json \<Rightarrow> json \<Rightarrow> json \<Rightarrow> exn + pricing" where
  "calculatePricing selectedFeatures selectedServices hasCustomRequest =
     (case (case selectedFeatures of
              JArr xs \<Rightarrow> forEach addFeature xs (VNum 0, VNum 0)
            | _ \<Rightarrow> Inr (VNum 0, VNum 0)) of
        Inl e \<Rightarrow> Inl e
      | Inr acc \<Rightarrow>
          (let (total2, d) = applyDiscount selectedFeatures acc
           in case (case selectedServices of
                      JArr ys \<Rightarrow> forEach addService ys total2
                    | _ \<Rightarrow> Inr total2) of
                Inl e \<Rightarrow> Inl e
              | Inr total3 \<Rightarrow>
                  Inr \<lparr>total = (if truthy hasCustomRequest
                                then js_add total3 (VNum PRICING_customRequestBase)
                                else total3),
                       discount = d\<rparr>))"

section \<open>Validation\<close>

text \<open>
  \<^verbatim>\<open>String.prototype.trim\<close> removes the white space and line terminators of ECMAScript
  from both ends; the class \<^verbatim>\<open>\s\<close> of a regular expression is the same set.
\<close>

definition isWhiteSpace :: "nat \<Rightarrow> bool" where
  "isWhiteSpace c \<longleftrightarrow>
     c \<in> {0x9, 0xA, 0xB, 0xC, 0xD, 0x20, 0xA0, 0x1680, 0x2028, 0x2029, 0x202F, 0x205F,
          0x3000, 0xFEFF}
     \<or> (0x2000 \<le> c \<and> c \<le> 0x200A)"

definition trim :: "jsstring \<Rightarrow> jsstring" where
  "trim s = rev (dropWhile isWhiteSpace (rev (dropWhile isWhiteSpace s)))"

text \<open>
  \<^verbatim>\<open>/^[^\s@]+@[^\s@]+\.[^\s@]+$/\<close>: a non-empty run of characters that are neither
  white space nor \<^verbatim>\<open>@\<close>, then \<^verbatim>\<open>@\<close>, then such characters to the end with a dot
  among them that is neither the first nor the last.
\<close>

definition emailChar :: "nat \<Rightarrow> bool" where
  "emailChar c \<longleftrightarrow> \<not> isWhiteSpace c \<and> c \<noteq> 0x40"

definition isValidEmail :: "jsstring \<Rightarrow> bool" where
  "isValidEmail email =
     (takeWhile emailChar email \<noteq> [] \<and>
      (case dropWhile emailChar email of
         [] \<Rightarrow> False
       | c # domain \<Rightarrow>
           c = 0x40 \<and> list_all emailChar domain \<and> 0x2E \<in> set (butlast (tl domain))))"

text \<open>
  \<^verbatim>\<open>new URL(url)\<close> runs the basic URL parser of the URL Standard without a base URL.
  The class \<^verbatim>\<open>URL\<close> belongs to the runtime, not to the repository. The parser is
  followed here through its first states, which find the scheme and decide whether an
  authority follows; the states after that (authority, host, port, file host), where a
  host is parsed and may be rejected, are a parameter of the model: given the scheme and
  the input after its colon, they fail or yield the host.
\<close>

record url =
  scheme :: jsstring
  host :: "jsstring option"

type_synonym authority_states = "jsstring \<Rightarrow> jsstring \<Rightarrow> jsstring option"

definition asciiAlpha :: "nat \<Rightarrow> bool" where
  "asciiAlpha c \<longleftrightarrow> (0x41 \<le> c \<and> c \<le> 0x5A) \<or> (0x61 \<le> c \<and> c \<le> 0x7A)"

definition asciiDigit :: "nat \<Rightarrow> bool" where
  "asciiDigit c \<longleftrightarrow> 0x30 \<le> c \<and> c \<le> 0x39"

definition asciiLower :: "nat \<Rightarrow> nat" where
  "asciiLower c = (if 0x41 \<le> c \<and> c \<le> 0x5A then c + 0x20 else c)"

definition c0ControlOrSpace :: "nat \<Rightarrow> bool" where
  "c0ControlOrSpace c \<longleftrightarrow> c \<le> 0x20"

definition asciiTabOrNewline :: "nat \<Rightarrow> bool" where
  "asciiTabOrNewline c \<longleftrightarrow> c \<in> {0x9, 0xA, 0xD}"

definition specialSchemes :: "string list" where
  "specialSchemes = [''ftp'', ''file'', ''http'', ''https'', ''ws'', ''wss'']"

text \<open>
  Scheme state: the buffer grows while the input is alphanumeric, \<^verbatim>\<open>+\<close>, \<^verbatim>\<open>-\<close> or
  \<^verbatim>\<open>.\<close>; a colon ends the scheme; anything else, or the end of the input, leads to the
  no-scheme state, which fails when there is no base URL.
\<close>

definition schemeChar :: "nat \<Rightarrow> bool" where
  "schemeChar c \<longleftrightarrow> asciiAlpha c \<or> asciiDigit c \<or> c \<in> {0x2B, 0x2D, 0x2E}"

fun schemeState :: "jsstring \<Rightarrow> jsstring \<Rightarrow> (jsstring \<times> jsstring) option" where
  "schemeState buffer [] = None"
| "schemeState buffer (c # cs) =
     (if schemeChar c
      then schemeState (buffer @ [asciiLower c]) cs
      else if c = 0x3A then Some (buffer, cs)
      else None)"

definition schemeStartState :: "jsstring \<Rightarrow> (jsstring \<times> jsstring) option" where
  "schemeStartState input =
     (case input of
        [] \<Rightarrow> None
      | c # cs \<Rightarrow> if asciiAlpha c then schemeState [asciiLower c] cs else None)"

text \<open>
  After the scheme: \<^verbatim>\<open>file\<close> and the other special schemes always go on to parse
  an authority; another scheme does so only when \<^verbatim>\<open>//\<close> follows the colon, and
  otherwise the rest is a path (path state, opaque path state), the host stays null and
  no later state fails.
\<close>

definition withAuthority :: "authority_states \<Rightarrow> jsstring \<Rightarrow> jsstring \<Rightarrow> url option" where
  "withAuthority authority sch remaining =
     (case authority sch remaining of
        None \<Rightarrow> None
      | Some h \<Rightarrow> Some \<lparr>scheme = sch, host = Some h\<rparr>)"

text \<open>
  Before its first state the parser strips C0 controls and spaces from both ends of the
  input and removes every ASCII tab and newline.
\<close>

definition preprocess :: "jsstring \<Rightarrow> jsstring" where
  "preprocess input =
     filter (\<lambda>c. \<not> asciiTabOrNewline c)
       (rev (dropWhile c0ControlOrSpace (rev (dropWhile c0ControlOrSpace input))))"

definition URL :: "authority_states \<Rightarrow> jsstring \<Rightarrow> url option" where
  "URL authority input =
     (case schemeStartState (preprocess input) of
        None \<Rightarrow> None
      | Some (sch, remaining) \<Rightarrow>
          if sch \<in> set (map js specialSchemes) then withAuthority authority sch remaining
          else if take 2 remaining = js ''//'' then withAuthority authority sch remaining
          else Some \<lparr>scheme = sch, host = None\<rparr>)"

definition isValidUrl :: "authority_states \<Rightarrow> jsstring \<Rightarrow> bool" where
  "isValidUrl authority u = (case URL authority u of Some parsed \<Rightarrow> True | None \<Rightarrow> False)"

record validation =
  isValid :: bool
  errors :: "string list"

text \<open>The two branches of the URL rule and of the email rule.\<close>

definition appUrlErrors :: "authority_states \<Rightarrow> json \<Rightarrow> string list" where
  "appUrlErrors authority appUrl =
     (case appUrl of
        JStr s \<Rightarrow>
          if s = [] \<or> trim s = [] then [''App URL is required'']
          else if \<not> isValidUrl authority s then [''App URL must be a valid URL'']
          else []
      | _ \<Rightarrow> [''App URL is required''])"

definition emailErrors :: "json \<Rightarrow> string list" where
  "emailErrors email =
     (case email of
        JStr s \<Rightarrow>
          if s = [] \<or> trim s = [] then [''Email is required'']
          else if \<not> isValidEmail s then [''Email must be a valid email address'']
          else []
      | _ \<Rightarrow> [''Email is required''])"

fun hasElements :: "json \<Rightarrow> bool" where
  "hasElements (JArr xs) = (0 < length xs)"
| "hasElements v = False"

text \<open>The selection rule, with \<open>hasFeatures\<close>, \<open>hasServices\<close> and \<open>hasCustom\<close>.\<close>

definition selectionErrors :: "json \<Rightarrow> json \<Rightarrow> json \<Rightarrow> string list" where
  "selectionErrors selectedFeatures selectedServices hasCustomRequest =
     (let hasFeatures = hasElements selectedFeatures;
          hasServices = hasElements selectedServices;
          hasCustom = (hasCustomRequest = JBool True)
      in if \<not> hasFeatures \<and> \<not> hasServices \<and> \<not> hasCustom
         then [''At least one service must be selected''] else [])"

text \<open>The rule \<^verbatim>\<open>if (v && !Array.isArray(v))\<close>, for the two selections.\<close>

definition arrayErrors :: "string \<Rightarrow> json \<Rightarrow> string list" where
  "arrayErrors msg v = (if truthy v \<and> \<not> isArray v then [msg] else [])"

text \<open>
  \<^verbatim>\<open>data.customRequestText.trim()\<close> is reached when \<^verbatim>\<open>hasCustomRequest\<close> and
  \<^verbatim>\<open>customRequestText\<close> are both truthy. Only a string has the method: on any other
  truthy value of a JSON text the call raises a \<^verbatim>\<open>TypeError\<close>.
\<close>

definition customRequestErrors :: "json \<Rightarrow> json \<Rightarrow> exn + string list" where
  "customRequestErrors hasCustomRequest customRequestText =
     (if \<not> truthy hasCustomRequest then Inr []
      else if \<not> truthy customRequestText
      then Inr [''Custom request description is required when custom request is selected'']
      else (case customRequestText of
              JStr s \<Rightarrow>
                if trim s = []
                then Inr [''Custom request description is required when custom request is selected'']
                else Inr []
            | _ \<Rightarrow> Inl TypeError))"

text \<open>
  \<^verbatim>\<open>validateEstimateForm\<close>. Reading \<^verbatim>\<open>data.appUrl\<close> raises a \<^verbatim>\<open>TypeError\<close> when
  \<open>data\<close> is \<^verbatim>\<open>null\<close>.
\<close>

definition validateEstimateForm :: "authority_states \<Rightarrow> json \<Rightarrow> exn + validation" where
  "validateEstimateForm authority data =
     (if data = JNull \<or> data = JUndefined then Inl TypeError
      else
        let errors1 = appUrlErrors authority (get data ''appUrl'');
            errors2 = errors1 @ emailErrors (get data ''email'');
            errors3 = errors2 @
              selectionErrors (get data ''selectedFeatures'') (get data ''selectedServices'')
                (get data ''hasCustomRequest'');
            errors4 = errors3 @
              arrayErrors ''Selected features must be an array'' (get data ''selectedFeatures'');
            errors5 = errors4 @
              arrayErrors ''Selected services must be an array'' (get data ''selectedServices'')
        in case customRequestErrors (get data ''hasCustomRequest'') (get data ''customRequestText'') of
             Inl x \<Rightarrow> Inl x
           | Inr custom \<Rightarrow>
               let errors6 = errors5 @ custom
               in Inr \<lparr>isValid = (length errors6 = 0), errors = errors6\<rparr>)"

section \<open>The submission handler\<close>

text \<open>
  A request as the worker reads it: its method, the origin and the path of its URL (the
  runtime hands over a well-formed absolute http or https URL), and what
  \<^verbatim>\<open>request.json()\<close> yields, \<open>None\<close> when the body is not well-formed JSON and the
  call raises a \<^verbatim>\<open>SyntaxError\<close>.
\<close>

record request = req_method :: jsstring
  origin :: jsstring
  pathname :: jsstring
  json :: "json option"

record env =
  AIRTABLE_API_KEY :: "jsstring option"
  AIRTABLE_BASE_ID :: "jsstring option"
  AIRTABLE_TABLE_NAME :: "jsstring option"

text \<open>The bodies the worker serialises, one constructor for each shape.\<close>

datatype body =
    NoBody
  | ErrorBody string
  | ValidationBody string "string list"
  | DatabaseBody string string
  | SuccessBody string

record response =
  status :: nat
  headers :: "(string \<times> jsstring) list"
  body :: body

definition corsHeaders :: "(string \<times> jsstring) list" where
  "corsHeaders =
     [(''Access-Control-Allow-Origin'', js ''*''),
      (''Access-Control-Allow-Methods'', js ''GET, POST, OPTIONS''),
      (''Access-Control-Allow-Headers'', js ''Content-Type'')]"

definition jsonResponse :: "nat \<Rightarrow> body \<Rightarrow> response" where
  "jsonResponse code b =
     \<lparr>status = code,
      headers = corsHeaders @ [(''Content-Type'', js ''application/json'')],
      body = b\<rparr>"

text \<open>
  The record sent to the store, and the store: the records created so far, each with the
  base and the table it went to.
\<close>

datatype fieldval = FJson json | FNumber jsval | FBool bool

type_synonym fields = "(string \<times> fieldval) list"

type_synonym store = "(jsstring \<times> jsstring \<times> fields) list"

text \<open>
  What the runtime and the store client supply: the later states of the URL parser, the
  client's \<^verbatim>\<open>base(tableName).create\<close> (given the key, the base, the table and the
  fields, it answers or rejects and leaves the store in some state) and the clock's
  \<^verbatim>\<open>new Date().toISOString()\<close>.
\<close>

record platform =
  authority :: authority_states
  create :: "jsstring \<Rightarrow> jsstring \<Rightarrow> jsstring \<Rightarrow> fields \<Rightarrow> store \<Rightarrow> (exn + unit) \<times> store"
  now :: jsstring

definition configured :: "jsstring option \<Rightarrow> bool" where
  "configured v = (case v of None \<Rightarrow> False | Some s \<Rightarrow> s \<noteq> [])"

text \<open>The text of a setting; an unset one reads as empty where a text is needed.\<close>

definition setting :: "jsstring option \<Rightarrow> jsstring" where
  "setting v = (case v of None \<Rightarrow> [] | Some s \<Rightarrow> s)"

text \<open>\<^verbatim>\<open>a || b\<close> on values of the payload.\<close>

definition orElse :: "json \<Rightarrow> json \<Rightarrow> json" where
  "orElse a b = (if truthy a then a else b)"

definition airtableRecord :: "jsstring \<Rightarrow> json \<Rightarrow> pricing \<Rightarrow> fields" where
  "airtableRecord timestamp data p =
     [(''App URL'', FJson (get data ''appUrl'')),
      (''Email'', FJson (get data ''email'')),
      (''Platform'', FJson (orElse (get data ''platform'') (JStr (js ''Not specified'')))),
      (''Selected Features'', FJson (orElse (get data ''selectedFeatures'') JNull)),
      (''Selected Services'', FJson (orElse (get data ''selectedServices'') JNull)),
      (''Custom Request'', FBool (truthy (get data ''hasCustomRequest''))),
      (''Custom Request Description'', FJson (orElse (get data ''customRequestText'') JNull)),
      (''Notes'', FJson (orElse (get data ''additionalContext'') JNull)),
      (''Estimated Price'', FNumber (total p)),
      (''Feature Discount'', FNumber (discount p)),
      (''Timestamp'', FJson (orElse (get data ''timestamp'') (JStr timestamp))),
      (''Status'', FJson (JStr (js ''New'')))]"

text \<open>The \<^verbatim>\<open>try\<close> block: a response, or the exception that leaves it.\<close>

definition tryBlock :: "platform \<Rightarrow> request \<Rightarrow> env \<Rightarrow> store \<Rightarrow> (exn + response) \<times> store" where
  "tryBlock P request e st =
     (case json request of
        None \<Rightarrow> (Inl SyntaxError, st)
      | Some data \<Rightarrow>
          (case validateEstimateForm (authority P) data of
             Inl x \<Rightarrow> (Inl x, st)
           | Inr v \<Rightarrow>
               if \<not> isValid v
               then (Inr (jsonResponse 400 (ValidationBody ''Validation failed'' (errors v))), st)
               else if \<not> configured (AIRTABLE_API_KEY e)
               then (Inr (jsonResponse 500 (ErrorBody ''Server configuration error'')), st)
               else if \<not> configured (AIRTABLE_BASE_ID e)
               then (Inr (jsonResponse 500 (ErrorBody ''Server configuration error'')), st)
               else
                 let tableName =
                       (if configured (AIRTABLE_TABLE_NAME e) then setting (AIRTABLE_TABLE_NAME e)
                        else js ''Estimate Requests'')
                 in case calculatePricing (get data ''selectedFeatures'')
                           (get data ''selectedServices'') (get data ''hasCustomRequest'') of
                      Inl x \<Rightarrow> (Inl x, st)
                    | Inr p \<Rightarrow>
                        (case create P (setting (AIRTABLE_API_KEY e)) (setting (AIRTABLE_BASE_ID e))
                                tableName (airtableRecord (now P) data p) st of
                           (Inl x, st') \<Rightarrow> (Inl x, st')
                         | (Inr u, st') \<Rightarrow>
                             (Inr (jsonResponse 200
                                     (SuccessBody ''Estimate request submitted successfully'')),
                              st'))))"

text \<open>The \<^verbatim>\<open>catch\<close> block.\<close>

definition catchBlock :: "exn \<Rightarrow> response" where
  "catchBlock x =
     (case x of
        SyntaxError \<Rightarrow> jsonResponse 400 (ErrorBody ''Invalid JSON in request body'')
      | TypeError \<Rightarrow> jsonResponse 500 (ErrorBody ''Internal server error'')
      | ClientError statusCode msg \<Rightarrow>
          (case statusCode of
             None \<Rightarrow> jsonResponse 500 (ErrorBody ''Internal server error'')
           | Some n \<Rightarrow>
               if n \<noteq> 0 then jsonResponse 500 (DatabaseBody ''Failed to save to database'' msg)
               else jsonResponse 500 (ErrorBody ''Internal server error'')))"

definition handleSubmitRequest :: "platform \<Rightarrow> request \<Rightarrow> env \<Rightarrow> store \<Rightarrow> response \<times> store" where
  "handleSubmitRequest P request e st =
     (if req_method request \<noteq> js ''POST''
      then (jsonResponse 405 (ErrorBody ''Method not allowed''), st)
      else (case tryBlock P request e st of
              (Inr r, st') \<Rightarrow> (r, st')
            | (Inl x, st') \<Rightarrow> (catchBlock x, st')))"

text \<open>\<^verbatim>\<open>Response.redirect(url, statusCode)\<close>.\<close>

definition redirect :: "jsstring \<Rightarrow> nat \<Rightarrow> response" where
  "redirect location code = \<lparr>status = code, headers = [(''Location'', location)], body = NoBody\<rparr>"

definition fetch :: "platform \<Rightarrow> request \<Rightarrow> env \<Rightarrow> store \<Rightarrow> response \<times> store" where
  "fetch P request e st =
     (if req_method request = js ''OPTIONS''
      then (\<lparr>status = 204, headers = corsHeaders, body = NoBody\<rparr>, st)
      else if pathname request = js ''/api/submit-request''
      then handleSubmitRequest P request e st
      else (redirect (origin request @ js ''/404'') 301, st))"

text \<open>
  Three store clients for concrete runs: one that creates the record and answers, one
  that rejects with a status code and creates nothing, and one that creates the record
  and then rejects, as when the answer of the store is lost on the way back.
\<close>

definition createOk :: "jsstring \<Rightarrow> jsstring \<Rightarrow> jsstring \<Rightarrow> fields \<Rightarrow> store \<Rightarrow> (exn + unit) \<times> store" where
  "createOk apiKey baseId tableName fs st = (Inr (), st @ [(baseId, tableName, fs)])"

definition createLate :: "jsstring \<Rightarrow> jsstring \<Rightarrow> jsstring \<Rightarrow> fields \<Rightarrow> store \<Rightarrow> (exn + unit) \<times> store" where
  "createLate apiKey baseId tableName fs st =
     (Inl (ClientError (Some 503) ''SERVICE_UNAVAILABLE''), st @ [(baseId, tableName, fs)])"

definition createRejected :: "jsstring \<Rightarrow> jsstring \<Rightarrow> jsstring \<Rightarrow> fields \<Rightarrow> store \<Rightarrow> (exn + unit) \<times> store" where
  "createRejected apiKey baseId tableName fs st = (Inl (ClientError (Some 422) ''INVALID_REQUEST''), st)"

text \<open>
  A stand-in for the later states of the URL parser, for concrete runs only: it skips
  the slashes after the colon, takes the characters up to the next slash as the host and
  fails when there are none.
\<close>

definition exampleAuthority :: authority_states where
  "exampleAuthority sch remaining =
     (let h = takeWhile (\<lambda>c. c \<noteq> 0x2F) (dropWhile (\<lambda>c. c = 0x2F) remaining)
      in if h = [] then None else Some h)"

definition examplePlatform :: platform where
  "examplePlatform =
     \<lparr>authority = exampleAuthority, create = createOk, now = js ''2024-01-01T00:00:00.000Z''\<rparr>"

definition exampleEnv :: env where
  "exampleEnv =
     \<lparr>AIRTABLE_API_KEY = Some (js ''key''), AIRTABLE_BASE_ID = Some (js ''app''),
      AIRTABLE_TABLE_NAME = None\<rparr>"

text \<open>
  The payload of the specification's example: one service, a custom request described
  as \<^verbatim>\<open>X\<close>.
\<close>

definition examplePayload :: "jsstring \<Rightarrow> json" where
  "examplePayload appUrl =
     JObj [(js ''appUrl'', JStr appUrl),
           (js ''email'', JStr (js ''a@b.co'')),
           (js ''selectedFeatures'', JArr []),
           (js ''selectedServices'', JArr [JStr (js ''Security Audit & Fixes'')]),
           (js ''hasCustomRequest'', JBool True),
           (js ''customRequestText'', JStr (js ''X''))]"

definition submission :: "jsstring \<Rightarrow> json option \<Rightarrow> request" where
  "submission m b =
     \<lparr>req_method = m, origin = js ''https://finalize.example'',
      pathname = js ''/api/submit-request'', json = b\<rparr>"

text \<open>
  What the specification prices a name at: its price in the catalog, and 0 when the
  catalog does not have it.
\<close>

definition catalogPrice :: "(string \<times> rat) list \<Rightarrow> json \<Rightarrow> rat" where
  "catalogPrice table name =
     (case propertyKey name of
        Inr (Some k) \<Rightarrow>
          (case map_of (map (\<lambda>(n, p). (js n, p)) table) k of Some p \<Rightarrow> p | None \<Rightarrow> 0)
      | _ \<Rightarrow> 0)"

text \<open>A name the lookup reads as a price or as nothing.\<close>

definition plainName :: "(string \<times> rat) list \<Rightarrow> json \<Rightarrow> bool" where
  "plainName table name =
     (case lookup table name of Inr Absent \<Rightarrow> True | Inr (Price p) \<Rightarrow> True | _ \<Rightarrow> False)"

text \<open>
  The store client is atomic when a call that answers has appended exactly the one
  record and a call that rejects has left the store as it was.
\<close>

definition atomic :: "(jsstring \<Rightarrow> jsstring \<Rightarrow> jsstring \<Rightarrow> fields \<Rightarrow> store \<Rightarrow> (exn + unit) \<times> store) \<Rightarrow> bool" where
  "atomic c \<longleftrightarrow>
     (\<forall>k b t fs st.
        (case c k b t fs st of
           (Inr u, st') \<Rightarrow> st' = st @ [(b, t, fs)]
         | (Inl x, st') \<Rightarrow> st' = st))"

section \<open>Properties of the pricing engine\<close>

text \<open>
  On names that the lookup reads as a price or as nothing the engine computes with
  numbers only: each name adds its catalog price, 0 when the catalog does not have it.
\<close>

lemma propertyKey_throws:
  "propertyKey v = Inl e \<Longrightarrow> e = TypeError"
  "joinKeys vs = Inl e \<Longrightarrow> e = TypeError"
  "elementKey v = Inl e \<Longrightarrow> e = TypeError"
  by (induction v and vs and v rule: propertyKey_joinKeys_elementKey.induct)
     (auto split: if_splits sum.splits option.splits)

lemma lookup_cases:
  "lookup table name = Inl TypeError \<or> lookup table name = Inr Inherited
   \<or> lookup table name = Inr Absent \<and> catalogPrice table name = 0
   \<or> lookup table name = Inr (Price (catalogPrice table name))"
  using propertyKey_throws(1) [of name]
  by (auto simp: lookup_def catalogPrice_def split: sum.splits option.splits)

lemma addFeature_number:
  assumes "plainName PRICING_features x"
  shows "addFeature x (VNum a, VNum b) =
         Inr (VNum (a + catalogPrice PRICING_features x), VNum (b + catalogPrice PRICING_features x))"
  using assms lookup_cases [of PRICING_features x]
  by (auto simp: addFeature_def plainName_def)

lemma addService_number:
  assumes "plainName PRICING_services y"
  shows "addService y (VNum a) = Inr (VNum (a + catalogPrice PRICING_services y))"
  using assms lookup_cases [of PRICING_services y]
  by (auto simp: addService_def plainName_def)

lemma forEach_addFeature_numbers:
  assumes "\<forall>x \<in> set xs. plainName PRICING_features x"
  shows "forEach addFeature xs (VNum a, VNum b) =
         Inr (VNum (a + sum_list (map (catalogPrice PRICING_features) xs)),
              VNum (b + sum_list (map (catalogPrice PRICING_features) xs)))"
  using assms
proof (induction xs arbitrary: a b)
  case Nil
  then show ?case by simp
next
  case (Cons x xs)
  then show ?case by (simp add: addFeature_number add.assoc)
qed

lemma forEach_addService_numbers:
  assumes "\<forall>y \<in> set ys. plainName PRICING_services y"
  shows "forEach addService ys (VNum a) =
         Inr (VNum (a + sum_list (map (catalogPrice PRICING_services) ys)))"
  using assms
proof (induction ys arbitrary: a)
  case Nil
  then show ?case by simp
next
  case (Cons y ys)
  then show ?case by (simp add: addService_number add.assoc)
qed

lemma calculatePricing_catalog_names:
  assumes "\<forall>x \<in> set xs. plainName PRICING_features x"
    and "\<forall>y \<in> set ys. plainName PRICING_services y"
  shows "calculatePricing (JArr xs) (JArr ys) custom =
           (let featureSubtotal = sum_list (map (catalogPrice PRICING_features) xs);
                d = (if 3 \<le> length xs then of_int \<lfloor>featureSubtotal * (1 / 10) + 1 / 2\<rfloor> else 0)
            in Inr \<lparr>total = VNum (featureSubtotal - d + sum_list (map (catalogPrice PRICING_services) ys)
                               + (if truthy custom then 250 else 0)),
                discount = VNum d\<rparr>)"
  using assms
  by (simp add: calculatePricing_def applyDiscount_def forEach_addFeature_numbers
      forEach_addService_numbers PRICING_featureDiscountThreshold_def
      PRICING_featureDiscountRate_def PRICING_customRequestBase_def Let_def)

lemmas pricing_eval = calculatePricing_def applyDiscount_def addFeature_def addService_def
  lookup_def hasOwn_def js_def PRICING_features_def PRICING_services_def Object_prototype_def
  PRICING_featureDiscountThreshold_def PRICING_featureDiscountRate_def PRICING_customRequestBase_def

text \<open>The three examples of the specification, and an element whose conversion raises.\<close>

lemma example_three_features:
  "calculatePricing
     (JArr [JStr (js ''Authentication''), JStr (js ''Payments''), JStr (js ''SaaS Subscriptions'')])
     (JArr []) (JBool False) = Inr \<lparr>total = VNum 270, discount = VNum 30\<rparr>"
  by code_simp

lemma example_service_and_custom:
  "calculatePricing (JArr []) (JArr [JStr (js ''Security Audit & Fixes'')]) (JBool True) =
     Inr \<lparr>total = VNum 400, discount = VNum 0\<rparr>"
  by code_simp

lemma example_unknown_name:
  "calculatePricing (JArr [JStr (js ''Authentication''), JStr (js ''Payments''), JStr (js ''Bogus'')])
     (JArr []) (JBool False) = Inr \<lparr>total = VNum 180, discount = VNum 20\<rparr>"
  by code_simp

lemma example_object_name:
  "calculatePricing (JArr [JObj [(js ''toString'', JNum 1)]]) (JArr []) (JBool False) = Inl TypeError"
  by (simp add: pricing_eval)

text \<open>
  Claim C1: for every input the total is the sum of the catalog prices of the recognised
  features, minus the discount, plus the catalog prices of the recognised services, plus
  250 for a custom request, and an unrecognised name contributes 0. The code reads
  \<^verbatim>\<open>PRICING.features[featureName]\<close> through the prototype chain: the name
  \<^verbatim>\<open>constructor\<close> is in no catalog, yet it reads as a function, which is truthy, and
  \<^verbatim>\<open>total += price\<close> turns the total into a text. The claim gives total 0 here.
  (\<open>calculatePricing_catalog_names\<close> is the claim on the names read as a price or as
  nothing.)
\<close>

theorem inherited_name_is_priced:
  "calculatePricing (JArr [JStr (js ''constructor'')]) (JArr []) (JBool False) =
     Inr \<lparr>total = VText, discount = VNum 0\<rparr>"
  by (simp add: pricing_eval)

text \<open>
  Claim C2: below three features the discount is 0, and from three features on it is the
  feature subtotal times 0.10, rounded, and subtracted from the total. With the three
  features of the catalog and the name \<^verbatim>\<open>toString\<close> the subtotal of the catalog
  prices is 300 and the claim gives discount 30 and total 270; in the code
  \<open>featuresTotal\<close> has become a text, its product with the rate is not a number, and
  so are the discount and the total.
\<close>

theorem inherited_name_spoils_discount:
  "calculatePricing
     (JArr [JStr (js ''Authentication''), JStr (js ''Payments''), JStr (js ''SaaS Subscriptions''),
            JStr (js ''toString'')]) (JArr []) (JBool False) =
     Inr \<lparr>total = VNaN, discount = VNaN\<rparr>"
  by (simp add: pricing_eval)

text \<open>
  Claim C9: the threshold counts every entry of the list while the subtotal sums the
  recognised names only, so a list of three entries with two catalog names gets the
  discount on the two. The list below has two catalog names and the name
  \<^verbatim>\<open>valueOf\<close>: the claim gives discount 20 and total 180, the code gives no number.
\<close>

theorem inherited_name_counts_and_spoils:
  "calculatePricing
     (JArr [JStr (js ''Authentication''), JStr (js ''Payments''), JStr (js ''valueOf'')])
     (JArr []) (JBool False) =
     Inr \<lparr>total = VNaN, discount = VNaN\<rparr>"
  by (simp add: pricing_eval)

section \<open>Properties of validation\<close>

text \<open>
  The scheme states accept exactly an ASCII letter, then scheme characters, then a colon;
  the scheme is that prefix in lower case and the rest is what follows the colon.
\<close>

lemma colon_no_schemeChar: "\<not> schemeChar 0x3A"
  by (simp add: schemeChar_def asciiAlpha_def asciiDigit_def)

lemma schemeState_Some:
  "schemeState buffer cs = Some (sch, remaining) \<longleftrightarrow>
     (\<exists>pre. cs = pre @ 0x3A # remaining \<and> list_all schemeChar pre \<and> sch = buffer @ map asciiLower pre)"
proof (induction cs arbitrary: buffer)
  case Nil
  then show ?case by simp
next
  case (Cons c cs)
  show ?case
  proof (cases "schemeChar c")
    case True
    then have ne: "c \<noteq> 0x3A" using colon_no_schemeChar by auto
    have "(\<exists>pre. c # cs = pre @ 0x3A # remaining \<and> list_all schemeChar pre \<and> sch = buffer @ map asciiLower pre)
        \<longleftrightarrow> (\<exists>pre'. cs = pre' @ 0x3A # remaining \<and> list_all schemeChar pre' \<and> sch = (buffer @ [asciiLower c]) @ map asciiLower pre')"
      (is "?L \<longleftrightarrow> ?R")
    proof
      assume ?L
      then obtain pre where p: "c # cs = pre @ 0x3A # remaining" "list_all schemeChar pre"
        "sch = buffer @ map asciiLower pre" by blast
      from p(1) ne obtain pre' where "pre = c # pre'" by (cases pre) auto
      with p show ?R by auto
    next
      assume ?R
      then obtain pre' where "cs = pre' @ 0x3A # remaining" "list_all schemeChar pre'"
        "sch = (buffer @ [asciiLower c]) @ map asciiLower pre'" by blast
      with True have "c # cs = (c # pre') @ 0x3A # remaining \<and> list_all schemeChar (c # pre')
          \<and> sch = buffer @ map asciiLower (c # pre')" by simp
      then show ?L by blast
    qed
    with True Cons.IH [of "buffer @ [asciiLower c]"] show ?thesis by simp
  next
    case False
    have "(\<exists>pre. c # cs = pre @ 0x3A # remaining \<and> list_all schemeChar pre \<and> sch = buffer @ map asciiLower pre)
        \<longleftrightarrow> c = 0x3A \<and> cs = remaining \<and> sch = buffer"
    proof
      assume "\<exists>pre. c # cs = pre @ 0x3A # remaining \<and> list_all schemeChar pre \<and> sch = buffer @ map asciiLower pre"
      then obtain pre where p: "c # cs = pre @ 0x3A # remaining" "list_all schemeChar pre"
        "sch = buffer @ map asciiLower pre" by blast
      from p(1,2) False have "pre = []" by (cases pre) auto
      with p show "c = 0x3A \<and> cs = remaining \<and> sch = buffer" by simp
    next
      assume "c = 0x3A \<and> cs = remaining \<and> sch = buffer"
      then have "c # cs = [] @ 0x3A # remaining \<and> list_all schemeChar [] \<and> sch = buffer @ map asciiLower []"
        by simp
      then show "\<exists>pre. c # cs = pre @ 0x3A # remaining \<and> list_all schemeChar pre \<and> sch = buffer @ map asciiLower pre"
        by blast
    qed
    with False show ?thesis by auto
  qed
qed

lemma schemeStartState_Some:
  "schemeStartState input = Some (sch, remaining) \<longleftrightarrow>
     (\<exists>c pre. input = c # pre @ 0x3A # remaining \<and> asciiAlpha c \<and> list_all schemeChar pre
        \<and> sch = map asciiLower (c # pre))"
proof (cases input)
  case Nil
  then show ?thesis by (simp add: schemeStartState_def)
next
  case (Cons c cs)
  then show ?thesis
    by (auto simp: schemeStartState_def schemeState_Some)
qed

text \<open>A URL without a colon after a scheme is rejected.\<close>

lemma URL_needs_colon:
  assumes "URL A s = Some u"
  shows "\<exists>c pre remaining. preprocess s = c # pre @ 0x3A # remaining \<and> asciiAlpha c
           \<and> list_all schemeChar pre \<and> scheme u = map asciiLower (c # pre)"
proof -
  from assms obtain sch remaining where st: "schemeStartState (preprocess s) = Some (sch, remaining)"
    by (auto simp: URL_def split: option.splits)
  with assms have "scheme u = sch"
    by (auto simp: URL_def withAuthority_def split: option.splits if_splits)
  with st show ?thesis
    unfolding schemeStartState_Some by blast
qed

text \<open>
  What the parser accepts: a scheme and, for a special scheme or after \<^verbatim>\<open>//\<close>, a host
  from the authority states; otherwise the host is null.
\<close>

lemma URL_Some:
  "URL A s = Some u \<longleftrightarrow>
     (\<exists>sch remaining. schemeStartState (preprocess s) = Some (sch, remaining) \<and> scheme u = sch \<and>
        (if sch \<in> set (map js specialSchemes) \<or> take 2 remaining = js ''//''
         then \<exists>h. A sch remaining = Some h \<and> host u = Some h
         else host u = None))"
  by (cases u) (auto simp: URL_def withAuthority_def split: option.splits)

lemma trim_Nil: "trim [] = []"
  by (simp add: trim_def)

lemma appUrlErrors_empty:
  "appUrlErrors A v = [] \<longleftrightarrow> (\<exists>s u. v = JStr s \<and> trim s \<noteq> [] \<and> URL A s = Some u)"
  by (cases v) (auto simp: appUrlErrors_def isValidUrl_def trim_Nil split: option.splits)

lemma appUrlErrors_range:
  "set (appUrlErrors A v) \<subseteq> {''App URL is required'', ''App URL must be a valid URL''}"
  by (cases v) (auto simp: appUrlErrors_def)

lemma emailErrors_range:
  "set (emailErrors v) \<subseteq> {''Email is required'', ''Email must be a valid email address''}"
  by (cases v) (auto simp: emailErrors_def)

lemma customRequestErrors_range:
  "customRequestErrors h t = Inr c \<Longrightarrow>
   set c \<subseteq> {''Custom request description is required when custom request is selected''}"
  by (auto simp: customRequestErrors_def split: if_splits json.splits)

lemma validateEstimateForm_errors:
  assumes "validateEstimateForm A data = Inr v"
  shows "\<exists>c. customRequestErrors (get data ''hasCustomRequest'') (get data ''customRequestText'') = Inr c \<and>
     errors v =
       appUrlErrors A (get data ''appUrl'') @ emailErrors (get data ''email'') @
       selectionErrors (get data ''selectedFeatures'') (get data ''selectedServices'')
         (get data ''hasCustomRequest'') @
       arrayErrors ''Selected features must be an array'' (get data ''selectedFeatures'') @
       arrayErrors ''Selected services must be an array'' (get data ''selectedServices'') @ c
     \<and> isValid v = (errors v = [])"
  using assms
  by (auto simp: validateEstimateForm_def Let_def split: if_splits sum.splits)

lemma selectionErrors_range:
  "set (selectionErrors f s h) \<subseteq> {''At least one service must be selected''}"
  by (auto simp: selectionErrors_def Let_def)

lemma arrayErrors_range: "set (arrayErrors msg v) \<subseteq> {msg}"
  by (auto simp: arrayErrors_def)

lemma appUrl_messages:
  assumes "validateEstimateForm A data = Inr v"
  shows "(''App URL is required'' \<notin> set (errors v) \<and> ''App URL must be a valid URL'' \<notin> set (errors v))
     \<longleftrightarrow> appUrlErrors A (get data ''appUrl'') = []"
proof -
  from validateEstimateForm_errors [OF assms] obtain c where
    c: "customRequestErrors (get data ''hasCustomRequest'') (get data ''customRequestText'') = Inr c"
    and e: "errors v =
       appUrlErrors A (get data ''appUrl'') @ emailErrors (get data ''email'') @
       selectionErrors (get data ''selectedFeatures'') (get data ''selectedServices'')
         (get data ''hasCustomRequest'') @
       arrayErrors ''Selected features must be an array'' (get data ''selectedFeatures'') @
       arrayErrors ''Selected services must be an array'' (get data ''selectedServices'') @ c"
    by blast
  let ?u = "appUrlErrors A (get data ''appUrl'')"
  let ?m1 = "''App URL is required''" and ?m2 = "''App URL must be a valid URL''"
  have others: "m \<in> set (errors v) \<longleftrightarrow> m \<in> set ?u" if "m = ?m1 \<or> m = ?m2" for m
    using that emailErrors_range [of "get data ''email''"]
      selectionErrors_range [of "get data ''selectedFeatures''" "get data ''selectedServices''" "get data ''hasCustomRequest''"]
      arrayErrors_range [of "''Selected features must be an array''" "get data ''selectedFeatures''"]
      arrayErrors_range [of "''Selected services must be an array''" "get data ''selectedServices''"]
      customRequestErrors_range [OF c]
    unfolding e by auto
  have "?u = [] \<longleftrightarrow> ?m1 \<notin> set ?u \<and> ?m2 \<notin> set ?u"
    using appUrlErrors_range [of A "get data ''appUrl''"]
    by (cases ?u) auto
  with others show ?thesis by simp
qed

lemmas string_eval = js_def isWhiteSpace_def trim_def emailChar_def isValidEmail_def
  asciiAlpha_def asciiDigit_def asciiLower_def c0ControlOrSpace_def asciiTabOrNewline_def
  schemeChar_def specialSchemes_def schemeStartState_def withAuthority_def preprocess_def
  URL_def isValidUrl_def

lemmas validation_eval = appUrlErrors_def emailErrors_def selectionErrors_def arrayErrors_def
  customRequestErrors_def validateEstimateForm_def

lemma example_valid:
  "validateEstimateForm exampleAuthority (examplePayload (js ''https://a.b'')) =
     Inr \<lparr>isValid = True, errors = []\<rparr>"
  by (simp add: validation_eval string_eval examplePayload_def exampleAuthority_def)

lemma example_URL:
  "URL exampleAuthority (js ''https://a.b'') = Some \<lparr>scheme = js ''https'', host = Some (js ''a.b'')\<rparr>"
  by (simp add: string_eval exampleAuthority_def)

text \<open>Validation returns unless the payload is \<^verbatim>\<open>null\<close> or the description has no \<^verbatim>\<open>trim\<close>.\<close>

lemma validateEstimateForm_returns:
  assumes "data \<noteq> JNull" and "data \<noteq> JUndefined"
    and "truthy (get data ''hasCustomRequest'') \<and> truthy (get data ''customRequestText'')
         \<longrightarrow> isString (get data ''customRequestText'')"
  shows "\<exists>v. validateEstimateForm A data = Inr v"
proof -
  from assms(3) have "\<exists>c. customRequestErrors (get data ''hasCustomRequest'') (get data ''customRequestText'') = Inr c"
    by (cases "get data ''customRequestText''") (auto simp: customRequestErrors_def)
  with assms(1,2) show ?thesis
    by (auto simp: validateEstimateForm_def Let_def)
qed

text \<open>
  Claim C3, as amended: when validation returns, it reports neither message about the
  app URL exactly when \<^verbatim>\<open>appUrl\<close> is a string, not empty after trimming, that the
  URL parser accepts. The parser accepts a value exactly when, stripped, it begins with a
  scheme and a colon and, if the scheme is special or \<^verbatim>\<open>//\<close> follows the colon, the
  authority states yield a host. So a value without a scheme is reported, and so is a
  value with a special scheme or \<^verbatim>\<open>//\<close> whose host the parser rejects; only a value
  with another scheme and no \<^verbatim>\<open>//\<close> is accepted with a null host.
\<close>

theorem appUrl_accepted_iff_parses:
  assumes "validateEstimateForm A data = Inr v"
  shows "((''App URL is required'' \<notin> set (errors v) \<and> ''App URL must be a valid URL'' \<notin> set (errors v))
          \<longleftrightarrow> (\<exists>s u. get data ''appUrl'' = JStr s \<and> trim s \<noteq> [] \<and> URL A s = Some u))
       \<and> (\<forall>s u. URL A s = Some u \<longleftrightarrow>
            (\<exists>c pre remaining.
               preprocess s = c # pre @ 0x3A # remaining \<and> asciiAlpha c \<and> list_all schemeChar pre \<and>
               scheme u = map asciiLower (c # pre) \<and>
               (if scheme u \<in> set (map js specialSchemes) \<or> take 2 remaining = js ''//''
                then \<exists>h. A (scheme u) remaining = Some h \<and> host u = Some h
                else host u = None)))"
proof -
  have parse: "URL A s = Some u \<longleftrightarrow>
            (\<exists>c pre remaining.
               preprocess s = c # pre @ 0x3A # remaining \<and> asciiAlpha c \<and> list_all schemeChar pre \<and>
               scheme u = map asciiLower (c # pre) \<and>
               (if scheme u \<in> set (map js specialSchemes) \<or> take 2 remaining = js ''//''
                then \<exists>h. A (scheme u) remaining = Some h \<and> host u = Some h
                else host u = None))" for s u
    unfolding URL_Some schemeStartState_Some by (rule iffI; (elim exE conjE)?; fastforce)
  from appUrl_messages [OF assms] parse show ?thesis
    unfolding appUrlErrors_empty by blast
qed

text \<open>
  Claim C3 as stated fails: \<^verbatim>\<open>mailto:a@b.co\<close> has a scheme that is not special and no
  \<^verbatim>\<open>//\<close> after it, the parser makes the rest an opaque path and leaves the host null,
  and validation accepts the payload.
\<close>

theorem appUrl_without_host_counterexample:
  "validateEstimateForm exampleAuthority (examplePayload (js ''mailto:a@b.co'')) =
     Inr \<lparr>isValid = True, errors = []\<rparr>
   \<and> URL exampleAuthority (js ''mailto:a@b.co'') = Some \<lparr>scheme = js ''mailto'', host = None\<rparr>"
  by (simp add: validation_eval string_eval examplePayload_def exampleAuthority_def)

text \<open>The amended claim on the accepted payload with \<^verbatim>\<open>https://a.b\<close>.\<close>

theorem appUrl_accepted_iff_parses_witness:
  "validateEstimateForm exampleAuthority (examplePayload (js ''https://a.b'')) = Inr \<lparr>isValid = True, errors = []\<rparr>
   \<and> (\<exists>s u. get (examplePayload (js ''https://a.b'')) ''appUrl'' = JStr s \<and> trim s \<noteq> []
          \<and> URL exampleAuthority s = Some u)
   \<and> (\<exists>c pre remaining. preprocess (js ''https://a.b'') = c # pre @ 0x3A # remaining \<and>
          js ''https'' = map asciiLower (c # pre) \<and>
          exampleAuthority (js ''https'') remaining = Some (js ''a.b''))"
proof -
  note t = appUrl_accepted_iff_parses [OF example_valid]
  from t [THEN conjunct1]
  have a: "\<exists>s u. get (examplePayload (js ''https://a.b'')) ''appUrl'' = JStr s \<and> trim s \<noteq> []
          \<and> URL exampleAuthority s = Some u"
    by simp
  have special: "js ''https'' \<in> set (map js specialSchemes)"
    by (simp add: specialSchemes_def js_def)
  from t [THEN conjunct2, THEN spec, THEN spec, THEN iffD1, OF example_URL] special
  have "\<exists>c pre remaining. preprocess (js ''https://a.b'') = c # pre @ 0x3A # remaining \<and>
          js ''https'' = map asciiLower (c # pre) \<and>
          exampleAuthority (js ''https'') remaining = Some (js ''a.b'')"
    by auto
  with a example_valid show ?thesis by blast
qed

section \<open>Properties of the handler\<close>

lemmas handler_eval = tryBlock_def catchBlock_def handleSubmitRequest_def fetch_def submission_def

text \<open>The specification's example: the body \<^verbatim>\<open>{}\<close> gets the three messages at once.\<close>

lemma empty_body_all_messages:
  "fetch P (submission (js ''POST'') (Some (JObj []))) e st =
     (jsonResponse 400 (ValidationBody ''Validation failed''
        [''App URL is required'', ''Email is required'', ''At least one service must be selected'']), st)"
  by (simp add: validation_eval handler_eval js_def)

text \<open>
  Claim C4: validation is not fail-fast and for every payload returns the complete list
  of the triggered messages. On the payload below no list is returned: \<^verbatim>\<open>appUrl\<close>
  and \<^verbatim>\<open>email\<close> are guarded by \<^verbatim>\<open>typeof\<close>, \<^verbatim>\<open>customRequestText\<close> is not, the
  call of \<^verbatim>\<open>trim\<close> on the number raises, and the messages about the URL, the email
  and the description that the claim promises are lost in a 500 response.
  (\<open>validateEstimateForm_errors\<close> gives the complete list whenever validation returns.)
\<close>

theorem validation_throws_on_numeric_description:
  "validateEstimateForm A (JObj [(js ''hasCustomRequest'', JBool True), (js ''customRequestText'', JNum 5)])
     = Inl TypeError
   \<and> fetch P (submission (js ''POST'')
        (Some (JObj [(js ''hasCustomRequest'', JBool True), (js ''customRequestText'', JNum 5)]))) e st
     = (jsonResponse 500 (ErrorBody ''Internal server error''), st)"
  by (simp add: validation_eval handler_eval js_def)

lemma status_jsonResponse: "status (jsonResponse n b) = n"
  by (simp add: jsonResponse_def)

lemma status_catchBlock: "status (catchBlock x) \<noteq> 200"
  by (simp add: catchBlock_def jsonResponse_def split: exn.splits option.splits)

text \<open>
  The \<^verbatim>\<open>try\<close> block either ends without the client, and then does the same whatever
  the client is, or it ends with the one call of the client, whose answer decides.
\<close>

lemma tryBlock_cases:
  assumes "tryBlock P request e st = (r, st')"
  shows "(st' = st \<and> (\<forall>c. tryBlock (P\<lparr>create := c\<rparr>) request e st = (r, st)) \<and>
            (\<forall>b. r \<noteq> Inr (jsonResponse 200 b)))
       \<or> (\<exists>k b t fs u. create P k b t fs st = (Inr u, st') \<and>
             r = Inr (jsonResponse 200 (SuccessBody ''Estimate request submitted successfully'')))
       \<or> (\<exists>k b t fs x. create P k b t fs st = (Inl x, st') \<and> r = Inl x)"
proof (cases "json request")
  case None
  with assms show ?thesis by (auto simp: tryBlock_def)
next
  case (Some data)
  show ?thesis
  proof (cases "validateEstimateForm (authority P) data")
    case (Inl x)
    with Some assms show ?thesis by (auto simp: tryBlock_def)
  next
    case (Inr v)
    show ?thesis
    proof (cases "isValid v \<and> configured (AIRTABLE_API_KEY e) \<and> configured (AIRTABLE_BASE_ID e)")
      case False
      with Some Inr assms show ?thesis
        by (auto simp: tryBlock_def jsonResponse_def split: if_splits)
    next
      case True
      note ready = this
      show ?thesis
      proof (cases "calculatePricing (get data ''selectedFeatures'') (get data ''selectedServices'')
                      (get data ''hasCustomRequest'')")
        case (Inl x)
        with Some Inr ready assms show ?thesis by (auto simp: tryBlock_def)
      next
        case (Inr p)
        let ?table = "if configured (AIRTABLE_TABLE_NAME e) then setting (AIRTABLE_TABLE_NAME e)
                        else js ''Estimate Requests''"
        let ?call = "create P (setting (AIRTABLE_API_KEY e)) (setting (AIRTABLE_BASE_ID e))
                           ?table (airtableRecord (now P) data p) st"
        obtain out s' where call: "?call = (out, s')" by (cases ?call)
        from Some \<open>validateEstimateForm (authority P) data = Inr v\<close> ready Inr call assms
        have "st' = s' \<and> (case out of Inl x \<Rightarrow> r = Inl x
            | Inr u \<Rightarrow> r = Inr (jsonResponse 200 (SuccessBody ''Estimate request submitted successfully'')))"
          by (cases out) (auto simp: tryBlock_def Let_def)
        with call show ?thesis
          by (cases out) (auto simp del: split_paired_Ex)
      qed
    qed
  qed
qed

lemma atomic_result:
  assumes "atomic c" and "c k b t fs st = (out, s')"
  shows "s' = (case out of Inr u \<Rightarrow> st @ [(b, t, fs)] | Inl x \<Rightarrow> st)"
proof -
  from assms(1) have "case c k b t fs st of
           (Inr u, st') \<Rightarrow> st' = st @ [(b, t, fs)]
         | (Inl x, st') \<Rightarrow> st' = st"
    unfolding atomic_def by (elim allE)
  with assms(2) show ?thesis
    by (cases out) simp_all
qed

lemma misconfigured_response:
  assumes "req_method request = js ''POST''" and "json request = Some data"
    and "validateEstimateForm (authority P) data = Inr v" and "isValid v"
    and "\<not> configured (AIRTABLE_API_KEY e) \<or> \<not> configured (AIRTABLE_BASE_ID e)"
  shows "handleSubmitRequest (P\<lparr>create := c\<rparr>) request e st =
           (jsonResponse 500 (ErrorBody ''Server configuration error''), st)"
  using assms by (auto simp: handleSubmitRequest_def tryBlock_def)

lemma handler_store_cases:
  assumes "handleSubmitRequest P request e st = (r, st')"
  shows "(status r = 200 \<longrightarrow> (\<exists>k b t fs u. create P k b t fs st = (Inr u, st')))
       \<and> (status r \<noteq> 200 \<longrightarrow>
            (st' = st \<and> (\<forall>c. handleSubmitRequest (P\<lparr>create := c\<rparr>) request e st = (r, st)))
            \<or> (\<exists>k b t fs x. create P k b t fs st = (Inl x, st')))
       \<and> (atomic (create P) \<longrightarrow>
            (status r = 200 \<longleftrightarrow> (\<exists>rec. st' = st @ [rec])) \<and> (status r \<noteq> 200 \<longrightarrow> st' = st))
       \<and> (req_method request = js ''POST'' \<and>
          (\<exists>data v. json request = Some data \<and> validateEstimateForm (authority P) data = Inr v \<and> isValid v) \<and>
          (\<not> configured (AIRTABLE_API_KEY e) \<or> \<not> configured (AIRTABLE_BASE_ID e)) \<longrightarrow>
          (\<forall>c. handleSubmitRequest (P\<lparr>create := c\<rparr>) request e st =
                 (jsonResponse 500 (ErrorBody ''Server configuration error''), st)))"
proof -
  have calls: "(status r = 200 \<and> (\<exists>k b t fs u. create P k b t fs st = (Inr u, st')))
       \<or> (status r \<noteq> 200 \<and> st' = st \<and> (\<forall>c. handleSubmitRequest (P\<lparr>create := c\<rparr>) request e st = (r, st)))
       \<or> (status r \<noteq> 200 \<and> (\<exists>k b t fs x. create P k b t fs st = (Inl x, st')))"
  proof (cases "req_method request = js ''POST''")
    case False
    with assms show ?thesis
      by (auto simp: handleSubmitRequest_def status_jsonResponse)
  next
    case True
    obtain t s where t: "tryBlock P request e st = (t, s)" by (cases "tryBlock P request e st")
    from tryBlock_cases [OF t] show ?thesis
    proof (elim disjE conjE exE)
      assume "s = st" and same: "\<forall>c. tryBlock (P\<lparr>create := c\<rparr>) request e st = (t, st)"
        and no: "\<forall>b. t \<noteq> Inr (jsonResponse 200 b)"
      have res: "(r, st') = (case t of Inr a \<Rightarrow> (a, st) | Inl x \<Rightarrow> (catchBlock x, st))"
        using assms True t \<open>s = st\<close> by (simp add: handleSubmitRequest_def split: sum.splits)
      have all: "handleSubmitRequest (P\<lparr>create := c\<rparr>) request e st = (r, st')" for c
        using same [rule_format, of c] True res
        by (simp add: handleSubmitRequest_def split: sum.splits)
      have "status r \<noteq> 200"
      proof (cases t)
        case (Inl x)
        with res show ?thesis by (simp add: status_catchBlock)
      next
        case (Inr a)
        from assms True t \<open>s = st\<close> Inr have ra: "r = a" by (simp add: handleSubmitRequest_def)
        from t Inr True have "status a = 400 \<or> status a = 500 \<or> status a = 200"
          by (auto simp: tryBlock_def status_jsonResponse Let_def
              split: option.splits sum.splits if_splits prod.splits)
        moreover have "status a = 200 \<Longrightarrow> False"
        proof -
          assume "status a = 200"
          with t Inr have "\<exists>b. a = jsonResponse 200 b"
            by (auto simp: tryBlock_def status_jsonResponse Let_def
              split: option.splits sum.splits if_splits prod.splits)
          with no Inr show False by blast
        qed
        ultimately show ?thesis using ra by auto
      qed
      moreover from res have "st' = st" by (cases t) simp_all
      ultimately show ?thesis using all by auto
    next
      fix k b tn fs u
      assume c: "create P k b tn fs st = (Inr u, s)"
        and "t = Inr (jsonResponse 200 (SuccessBody ''Estimate request submitted successfully''))"
      with assms True t have "status r = 200 \<and> st' = s"
        by (auto simp: handleSubmitRequest_def status_jsonResponse)
      with c show ?thesis by blast
    next
      fix k b tn fs x
      assume c: "create P k b tn fs st = (Inl x, s)" and "t = Inl x"
      with assms True t have "status r \<noteq> 200 \<and> st' = s"
        by (auto simp: handleSubmitRequest_def status_catchBlock)
      with c show ?thesis by blast
    qed
  qed
  have at: "(status r = 200 \<longleftrightarrow> (\<exists>rec. st' = st @ [rec])) \<and> (status r \<noteq> 200 \<longrightarrow> st' = st)"
    if a: "atomic (create P)"
    using calls
  proof (elim disjE conjE exE)
    fix k b tn fs u
    assume "status r = 200" and "create P k b tn fs st = (Inr u, st')"
    with atomic_result [OF a this(2)] show ?thesis by simp
  next
    assume "status r \<noteq> 200" and "st' = st"
    then show ?thesis by simp
  next
    fix k b tn fs x
    assume "status r \<noteq> 200" and "create P k b tn fs st = (Inl x, st')"
    with atomic_result [OF a this(2)] show ?thesis by simp
  qed
  from calls at misconfigured_response show ?thesis by blast
qed

lemma tryBlock_without_call:
  assumes "json request = None \<or>
         (\<exists>data. json request = Some data \<and>
            ((\<exists>x. validateEstimateForm (authority P) data = Inl x) \<or>
             (\<exists>v. validateEstimateForm (authority P) data = Inr v \<and> \<not> isValid v) \<or>
             \<not> configured (AIRTABLE_API_KEY e) \<or> \<not> configured (AIRTABLE_BASE_ID e) \<or>
             (\<exists>x. calculatePricing (get data ''selectedFeatures'') (get data ''selectedServices'')
                    (get data ''hasCustomRequest'') = Inl x)))"
  shows "\<exists>t. (\<forall>c. tryBlock (P\<lparr>create := c\<rparr>) request e st = (t, st)) \<and>
             (\<forall>a. t = Inr a \<longrightarrow> status a \<noteq> 200)"
proof (cases "json request")
  case None
  then show ?thesis by (simp add: tryBlock_def)
next
  case (Some data)
  show ?thesis
  proof (cases "validateEstimateForm (authority P) data")
    case (Inl x)
    with Some show ?thesis by (simp add: tryBlock_def)
  next
    case (Inr v)
    show ?thesis
    proof (cases "isValid v")
      case False
      with Some Inr show ?thesis
        by (simp add: tryBlock_def status_jsonResponse)
    next
      case True
      note valid = this
      show ?thesis
      proof (cases "configured (AIRTABLE_API_KEY e)")
        case False
        with Some Inr valid show ?thesis
          by (simp add: tryBlock_def status_jsonResponse)
      next
        case True
        note key = this
        show ?thesis
        proof (cases "configured (AIRTABLE_BASE_ID e)")
          case False
          with Some Inr valid key show ?thesis
            by (simp add: tryBlock_def status_jsonResponse)
        next
          case True
          with assms Some Inr valid key obtain x where
            "calculatePricing (get data ''selectedFeatures'') (get data ''selectedServices'')
               (get data ''hasCustomRequest'') = Inl x"
            by auto
          with Some Inr valid key True show ?thesis by (simp add: tryBlock_def)
        qed
      qed
    qed
  qed
qed

lemma handled_before_the_call:
  assumes "handleSubmitRequest P request e st = (r, st')"
    and "req_method request \<noteq> js ''POST'' \<or> json request = None \<or>
         (\<exists>data. json request = Some data \<and>
            ((\<exists>x. validateEstimateForm (authority P) data = Inl x) \<or>
             (\<exists>v. validateEstimateForm (authority P) data = Inr v \<and> \<not> isValid v) \<or>
             \<not> configured (AIRTABLE_API_KEY e) \<or> \<not> configured (AIRTABLE_BASE_ID e) \<or>
             (\<exists>x. calculatePricing (get data ''selectedFeatures'') (get data ''selectedServices'')
                    (get data ''hasCustomRequest'') = Inl x)))"
  shows "st' = st \<and> status r \<noteq> 200 \<and>
         (\<forall>c. handleSubmitRequest (P\<lparr>create := c\<rparr>) request e st = (r, st))"
proof (cases "req_method request = js ''POST''")
  case False
  with assms(1) show ?thesis
    by (auto simp: handleSubmitRequest_def status_jsonResponse)
next
  case True
  with assms(2) tryBlock_without_call [of request P e st]
  obtain t where t: "\<And>c. tryBlock (P\<lparr>create := c\<rparr>) request e st = (t, st)"
    and s: "\<And>a. t = Inr a \<Longrightarrow> status a \<noteq> 200" by blast
  from t [of "create P"] have t0: "tryBlock P request e st = (t, st)" by simp
  from assms(1) True t0 have r: "(r, st') = (case t of Inr a \<Rightarrow> (a, st) | Inl x \<Rightarrow> (catchBlock x, st))"
    by (simp add: handleSubmitRequest_def split: sum.splits)
  have "handleSubmitRequest (P\<lparr>create := c\<rparr>) request e st = (r, st')" for c
    using t [of c] True r by (simp add: handleSubmitRequest_def split: sum.splits)
  moreover from r s have "st' = st \<and> status r \<noteq> 200"
    by (cases t) (auto simp: status_catchBlock)
  ultimately show ?thesis by simp
qed

text \<open>
  Claim C5, as amended: the handler answers 200 only when its one call of the store
  client has answered, and the store is then as that call left it. An answer for a wrong
  method, malformed JSON, failed validation, missing configuration or an exception in
  validation or pricing comes before the call: it is not 200, it leaves the store as it
  was and it is the same whatever the client is. Any other answer that is not 200
  follows a call that the client rejected, and the store is then as the rejected call
  left it: the handler undoes nothing. With an atomic client the answer is 200 exactly
  when one record has been appended, and every other answer leaves the store as it was.
  A valid payload without the key or the base is answered by 500
  \<^verbatim>\<open>Server configuration error\<close> whatever the client is.
\<close>

theorem store_written_only_by_the_client:
  assumes "handleSubmitRequest P request e st = (r, st')"
  shows "(status r = 200 \<longrightarrow> (\<exists>k b t fs u. create P k b t fs st = (Inr u, st')))
       \<and> (status r \<noteq> 200 \<longrightarrow>
            (st' = st \<and> (\<forall>c. handleSubmitRequest (P\<lparr>create := c\<rparr>) request e st = (r, st)))
            \<or> (\<exists>k b t fs x. create P k b t fs st = (Inl x, st')))
       \<and> (req_method request \<noteq> js ''POST'' \<or> json request = None \<or>
           (\<exists>data. json request = Some data \<and>
              ((\<exists>x. validateEstimateForm (authority P) data = Inl x) \<or>
               (\<exists>v. validateEstimateForm (authority P) data = Inr v \<and> \<not> isValid v) \<or>
               \<not> configured (AIRTABLE_API_KEY e) \<or> \<not> configured (AIRTABLE_BASE_ID e) \<or>
               (\<exists>x. calculatePricing (get data ''selectedFeatures'') (get data ''selectedServices'')
                      (get data ''hasCustomRequest'') = Inl x)))
           \<longrightarrow> st' = st \<and> status r \<noteq> 200 \<and>
               (\<forall>c. handleSubmitRequest (P\<lparr>create := c\<rparr>) request e st = (r, st)))
       \<and> (atomic (create P) \<longrightarrow>
            (status r = 200 \<longleftrightarrow> (\<exists>rec. st' = st @ [rec])) \<and> (status r \<noteq> 200 \<longrightarrow> st' = st))
       \<and> (req_method request = js ''POST'' \<and>
          (\<exists>data v. json request = Some data \<and> validateEstimateForm (authority P) data = Inr v \<and> isValid v) \<and>
          (\<not> configured (AIRTABLE_API_KEY e) \<or> \<not> configured (AIRTABLE_BASE_ID e)) \<longrightarrow>
          (\<forall>c. handleSubmitRequest (P\<lparr>create := c\<rparr>) request e st =
                 (jsonResponse 500 (ErrorBody ''Server configuration error''), st)))"
  using handler_store_cases [OF assms] handled_before_the_call [OF assms]
  by blast

lemma js_Nil: "js s = [] \<longleftrightarrow> s = []"
  by (simp add: js_def)

lemma atomic_createOk: "atomic createOk"
  by (simp add: atomic_def createOk_def)

lemma example_priced:
  "calculatePricing (get (examplePayload u) ''selectedFeatures'') (get (examplePayload u) ''selectedServices'')
     (get (examplePayload u) ''hasCustomRequest'') = Inr \<lparr>total = VNum 400, discount = VNum 0\<rparr>"
  by (simp add: examplePayload_def pricing_eval)

text \<open>
  Claim C5 as stated fails with a client that rejects after the record was written: the
  answer is 500 and the store holds the record.
\<close>

theorem rejection_after_write_counterexample:
  "status (fst (handleSubmitRequest (examplePlatform\<lparr>create := createLate\<rparr>)
      (submission (js ''POST'') (Some (examplePayload (js ''https://a.b'')))) exampleEnv [])) = 500 \<and>
   length (snd (handleSubmitRequest (examplePlatform\<lparr>create := createLate\<rparr>)
      (submission (js ''POST'') (Some (examplePayload (js ''https://a.b'')))) exampleEnv [])) = 1"
  using example_valid example_priced [of "js ''https://a.b''"]
  by (simp add: handleSubmitRequest_def tryBlock_def catchBlock_def submission_def examplePlatform_def
      exampleEnv_def configured_def setting_def createLate_def status_jsonResponse js_Nil)

text \<open>
  The amended claim on a valid payload: status 200 after the call that answered, one
  record appended; and without the key: status 500 with a client that would reject.
\<close>

theorem store_written_only_by_the_client_witness:
  "status (fst (handleSubmitRequest examplePlatform
      (submission (js ''POST'') (Some (examplePayload (js ''https://a.b'')))) exampleEnv [])) = 200 \<and>
   (\<exists>k b t fs u. create examplePlatform k b t fs [] =
      (Inr u, snd (handleSubmitRequest examplePlatform
         (submission (js ''POST'') (Some (examplePayload (js ''https://a.b'')))) exampleEnv []))) \<and>
   atomic (create examplePlatform) \<and>
   (\<exists>rec. snd (handleSubmitRequest examplePlatform
      (submission (js ''POST'') (Some (examplePayload (js ''https://a.b'')))) exampleEnv []) = [] @ [rec]) \<and>
   handleSubmitRequest (examplePlatform\<lparr>create := createRejected\<rparr>)
      (submission (js ''POST'') (Some (examplePayload (js ''https://a.b''))))
      (exampleEnv\<lparr>AIRTABLE_API_KEY := None\<rparr>) [] =
     (jsonResponse 500 (ErrorBody ''Server configuration error''), [])"
proof -
  let ?req = "submission (js ''POST'') (Some (examplePayload (js ''https://a.b'')))"
  have a: "atomic (create examplePlatform)"
    by (simp add: examplePlatform_def atomic_createOk)
  obtain r st' where run: "handleSubmitRequest examplePlatform ?req exampleEnv [] = (r, st')"
    by (cases "handleSubmitRequest examplePlatform ?req exampleEnv []")
  have ok: "status r = 200"
    using run example_valid example_priced [of "js ''https://a.b''"]
    by (auto simp: handleSubmitRequest_def tryBlock_def submission_def examplePlatform_def
        exampleEnv_def configured_def setting_def createOk_def status_jsonResponse js_Nil)
  have pre: "req_method ?req = js ''POST'' \<and>
      (\<exists>data v. json ?req = Some data \<and> validateEstimateForm (authority examplePlatform) data = Inr v \<and> isValid v) \<and>
      (\<not> configured (AIRTABLE_API_KEY (exampleEnv\<lparr>AIRTABLE_API_KEY := None\<rparr>))
       \<or> \<not> configured (AIRTABLE_BASE_ID (exampleEnv\<lparr>AIRTABLE_API_KEY := None\<rparr>)))"
    using example_valid by (simp add: submission_def examplePlatform_def configured_def)
  obtain r2 st2 where run2: "handleSubmitRequest examplePlatform ?req (exampleEnv\<lparr>AIRTABLE_API_KEY := None\<rparr>) [] = (r2, st2)"
    by (cases "handleSubmitRequest examplePlatform ?req (exampleEnv\<lparr>AIRTABLE_API_KEY := None\<rparr>) []")
  note t = store_written_only_by_the_client [OF run]
  from t ok have call: "\<exists>k b t fs u. create examplePlatform k b t fs [] = (Inr u, st')" by blast
  from t ok a have one: "\<exists>rec. st' = [] @ [rec]" by blast
  from store_written_only_by_the_client [OF run2] pre
  have "handleSubmitRequest (examplePlatform\<lparr>create := createRejected\<rparr>) ?req
      (exampleEnv\<lparr>AIRTABLE_API_KEY := None\<rparr>) [] =
     (jsonResponse 500 (ErrorBody ''Server configuration error''), [])"
    by blast
  with a ok call one run show ?thesis by simp
qed

text \<open>
  Claim C6: a POST to the submission route whose body is not well-formed JSON is
  answered by 400 with the error \<^verbatim>\<open>Invalid JSON in request body\<close>; a body that parses
  and fails validation is answered by 400 with \<^verbatim>\<open>Validation failed\<close> and the list.
\<close>

theorem malformed_json_response:
  assumes "req_method request = js ''POST''" and "pathname request = js ''/api/submit-request''"
  shows "(json request = None \<longrightarrow>
            fetch P request e st = (jsonResponse 400 (ErrorBody ''Invalid JSON in request body''), st)) \<and>
         (\<forall>data v. json request = Some data \<and> validateEstimateForm (authority P) data = Inr v \<and> \<not> isValid v \<longrightarrow>
            fetch P request e st = (jsonResponse 400 (ValidationBody ''Validation failed'' (errors v)), st))"
  using assms by (auto simp: fetch_def handleSubmitRequest_def tryBlock_def catchBlock_def js_def)

text \<open>The claim on a body that does not parse and on the body \<^verbatim>\<open>{}\<close>.\<close>

theorem malformed_json_response_witness:
  "fetch examplePlatform (submission (js ''POST'') None) exampleEnv [] =
     (jsonResponse 400 (ErrorBody ''Invalid JSON in request body''), []) \<and>
   fetch examplePlatform (submission (js ''POST'') (Some (JObj []))) exampleEnv [] =
     (jsonResponse 400 (ValidationBody ''Validation failed''
        [''App URL is required'', ''Email is required'', ''At least one service must be selected'']), [])"
proof -
  have v: "validateEstimateForm (authority examplePlatform) (JObj []) =
      Inr \<lparr>isValid = False, errors = [''App URL is required'', ''Email is required'', ''At least one service must be selected'']\<rparr>"
    by (simp add: validation_eval)
  have m: "req_method (submission (js ''POST'') b) = js ''POST''"
    and p: "pathname (submission (js ''POST'') b) = js ''/api/submit-request''" for b
    by (simp_all add: submission_def)
  from malformed_json_response [OF m p, of None examplePlatform exampleEnv "[]"]
    malformed_json_response [OF m p, of "Some (JObj [])" examplePlatform exampleEnv "[]"] v
  show ?thesis by (simp add: submission_def)
qed

text \<open>
  Claim C7, as amended: on the submission route a method other than POST is answered by
  405 \<^verbatim>\<open>Method not allowed\<close>, except OPTIONS, which is answered by 204 with the CORS
  headers before the route is looked at.
\<close>

theorem other_methods_on_route:
  assumes "pathname request = js ''/api/submit-request''" and "req_method request \<noteq> js ''POST''"
  shows "fetch P request e st =
           (if req_method request = js ''OPTIONS''
            then (\<lparr>status = 204, headers = corsHeaders, body = NoBody\<rparr>, st)
            else (jsonResponse 405 (ErrorBody ''Method not allowed''), st))"
  using assms by (simp add: fetch_def handleSubmitRequest_def)

text \<open>Claim C7 as stated fails for OPTIONS on the submission route: the status is 204.\<close>

theorem options_on_route_counterexample:
  "req_method (submission (js ''OPTIONS'') None) \<noteq> js ''POST'' \<and>
   pathname (submission (js ''OPTIONS'') None) = js ''/api/submit-request'' \<and>
   status (fst (fetch examplePlatform (submission (js ''OPTIONS'') None) exampleEnv [])) = 204"
  by (simp add: fetch_def submission_def js_def)

text \<open>The amended claim on a GET.\<close>

theorem other_methods_on_route_witness:
  "fetch examplePlatform (submission (js ''GET'') None) exampleEnv [] =
     (jsonResponse 405 (ErrorBody ''Method not allowed''), [])"
proof -
  have p: "pathname (submission (js ''GET'') None) = js ''/api/submit-request''"
    and m: "req_method (submission (js ''GET'') None) \<noteq> js ''POST''"
    and o: "req_method (submission (js ''GET'') None) \<noteq> js ''OPTIONS''"
    by (simp_all add: submission_def js_def)
  from other_methods_on_route [OF p m, of examplePlatform exampleEnv "[]"] o show ?thesis by simp
qed

text \<open>
  Claim C8: a request that is not OPTIONS and whose path is not the submission route is
  answered by a 301 redirect to \<^verbatim>\<open>/404\<close> on the origin of the request.
\<close>

theorem unknown_path_redirects:
  assumes "req_method request \<noteq> js ''OPTIONS''" and "pathname request \<noteq> js ''/api/submit-request''"
  shows "fetch P request e st =
           (\<lparr>status = 301, headers = [(''Location'', origin request @ js ''/404'')], body = NoBody\<rparr>, st)"
  using assms by (simp add: fetch_def redirect_def)

text \<open>The claim on a POST to \<^verbatim>\<open>/foo\<close>.\<close>

theorem unknown_path_redirects_witness:
  "fetch examplePlatform
     \<lparr>req_method = js ''POST'', origin = js ''https://finalize.example'', pathname = js ''/foo'', json = None\<rparr>
     exampleEnv [] =
   (\<lparr>status = 301, headers = [(''Location'', js ''https://finalize.example/404'')], body = NoBody\<rparr>, [])"
proof -
  let ?r = "\<lparr>req_method = js ''POST'', origin = js ''https://finalize.example'', pathname = js ''/foo'', json = None\<rparr>"
  have m: "req_method ?r \<noteq> js ''OPTIONS''" and p: "pathname ?r \<noteq> js ''/api/submit-request''"
    by (simp_all add: js_def)
  from unknown_path_redirects [OF m p, of examplePlatform exampleEnv "[]"] show ?thesis
    by (simp add: js_def)
qed

text \<open>
  Claim C10: when \<^verbatim>\<open>hasCustomRequest\<close> is truthy and \<^verbatim>\<open>customRequestText\<close> is
  truthy and not a string, validation raises a \<^verbatim>\<open>TypeError\<close>, and the handler answers
  a POST of that body by 500 \<^verbatim>\<open>Internal server error\<close> and stores nothing.
\<close>

theorem non_string_description_throws:
  assumes "truthy (get data ''hasCustomRequest'')" and "truthy (get data ''customRequestText'')"
    and "\<not> isString (get data ''customRequestText'')"
  shows "validateEstimateForm A data = Inl TypeError \<and>
         (req_method request = js ''POST'' \<and> json request = Some data \<longrightarrow>
            handleSubmitRequest P request e st =
              (jsonResponse 500 (ErrorBody ''Internal server error''), st))"
proof -
  from assms have "customRequestErrors (get data ''hasCustomRequest'') (get data ''customRequestText'') = Inl TypeError"
    by (cases "get data ''customRequestText''") (simp_all add: customRequestErrors_def)
  then have v: "validateEstimateForm A data = Inl TypeError" for A
    by (simp add: validateEstimateForm_def Let_def)
  then show ?thesis
    by (simp add: handleSubmitRequest_def tryBlock_def catchBlock_def)
qed

text \<open>The claim on a description that is the number 42.\<close>

theorem non_string_description_throws_witness:
  "validateEstimateForm exampleAuthority
     (JObj [(js ''hasCustomRequest'', JBool True), (js ''customRequestText'', JNum 42)]) = Inl TypeError \<and>
   handleSubmitRequest examplePlatform
     (submission (js ''POST'') (Some (JObj [(js ''hasCustomRequest'', JBool True), (js ''customRequestText'', JNum 42)])))
     exampleEnv [] = (jsonResponse 500 (ErrorBody ''Internal server error''), [])"
proof -
  let ?d = "JObj [(js ''hasCustomRequest'', JBool True), (js ''customRequestText'', JNum 42)]"
  have h: "truthy (get ?d ''hasCustomRequest'')" and t: "truthy (get ?d ''customRequestText'')"
    and n: "\<not> isString (get ?d ''customRequestText'')"
    by (simp_all add: js_def)
  from non_string_description_throws [OF h t n, of exampleAuthority "submission (js ''POST'') (Some ?d)" examplePlatform exampleEnv "[]"]
  show ?thesis by (simp add: submission_def)
qed

end
